theory Spec2Isabelle
  imports Main "HOL-Library.Word"
begin

section \<open>Data model of package graceful\<close>

text \<open>
  The package wraps an \<^verbatim>\<open>http.Server\<close> and a \<^verbatim>\<open>net.Listener\<close>. The handler and the
  logrus entry are opaque capabilities of the caller; they are modelled as handles and
  are never inspected: the server and the log entry of a coordinator are the non-nil
  pointers a caller of \<^verbatim>\<open>NewGracefulServer\<close> supplies. A \<^verbatim>\<open>time.Duration\<close> is a signed
  64-bit count of nanoseconds.
\<close>

type_synonym Handler = nat
type_synonym Logger = nat
type_synonym Duration = "64 word"
type_synonym Signal = nat

text \<open>Go's \<^verbatim>\<open>error\<close> interface; the nil error is \<open>None\<close> of \<open>error option\<close>.
  \<open>DeadlineExceeded\<close> is the sentinel \<^verbatim>\<open>context.DeadlineExceeded\<close>, \<open>errors_New\<close> an
  error built by \<^verbatim>\<open>errors.New\<close>, \<open>OpError\<close> a transport-level error of package net.\<close>

datatype error =
    DeadlineExceeded
  | ErrServerClosed
  | errors_New string
  | OpError string

text \<open>A call into the server either returns or panics.\<close>

datatype 'a res =
    Returns 'a
  | Panics

text \<open>A bound TCP listener: its descriptor and what \<^verbatim>\<open>l.Addr().String()\<close> returns.\<close>

record Listener =
  fd :: nat
  Addr_String :: string

record Server =
  Handler :: Handler

record Context =
  deadline :: int

record GracefulServer =
  server :: Server
  listener :: "Listener option"
  log :: Logger
  URL :: string
  ShutdownTimeout :: Duration

section \<open>The environment\<close>

text \<open>
  Every call that leaves the package is recorded, in order, in the history of the run.
  A value printed through a format verb is kept as the argument it was.
\<close>

datatype arg =
    ArgSignal Signal
  | ArgDurationString Duration

datatype event =
    NetListen string
  | GoListenForShutdownSignal
  | ServerServe "Listener option"
  | SignalNotify "Signal list"
  | ChanRecv Signal
  | Infof Logger string "arg list"
  | WithErrorWarnf Logger error string "arg list"
  | ServerShutdown Context
  | ContextCancel
  | ServerClose

type_synonym World = "event list"

text \<open>
  What the collaborators answer is decided by the environment, as a function of the
  history so far: the clock, the outcome of \<^verbatim>\<open>net.Listen("tcp", addr)\<close>, the terminal
  error of \<^verbatim>\<open>http.Server.Serve\<close> (or its panic), the time the requests in flight still need (\<open>None\<close>
  when they never finish), the error of closing the server's listeners, and the result of
  \<^verbatim>\<open>http.Server.Close\<close>.
\<close>

record Env =
  time_Now :: "World \<Rightarrow> int"
  net_Listen :: "World \<Rightarrow> string \<Rightarrow> error + Listener"
  Server_Serve :: "World \<Rightarrow> Listener option \<Rightarrow> error option res"
  inflight :: "World \<Rightarrow> int option"
  lnerr :: "World \<Rightarrow> error option"
  Server_Close :: "World \<Rightarrow> error option"

definition SIGINT :: Signal where
  "SIGINT = 2"

definition SIGTERM :: Signal where
  "SIGTERM = 15"

definition os_Interrupt :: Signal where
  "os_Interrupt = SIGINT"

definition time_Second :: Duration where
  "time_Second = 1000000000"

definition context_WithTimeout :: "Env \<Rightarrow> World \<Rightarrow> Duration \<Rightarrow> Context" where
  "context_WithTimeout env w d = \<lparr>deadline = time_Now env w + sint d\<rparr>"

text \<open>
  Modelled from the spec: \<^verbatim>\<open>http.Server.Shutdown\<close> belongs to the standard library
  and is not among the sources. The serving loop waits for all requests in flight to
  complete, and returns once all are complete or the deadline elapses, whichever comes
  first: with work still outstanding at the deadline the result is the sentinel,
  otherwise it is the error of closing the listeners (nil on a clean completion).
\<close>

definition Server_Shutdown :: "Env \<Rightarrow> Context \<Rightarrow> World \<Rightarrow> error option \<times> World" where
  "Server_Shutdown env ctx w =
     (let remaining = max 0 (deadline ctx - time_Now env w);
          w1 = w @ [ServerShutdown ctx]
      in case inflight env w of
           None \<Rightarrow> (Some DeadlineExceeded, w1)
         | Some d \<Rightarrow>
             if d \<le> remaining then (lnerr env w, w1)
             else (Some DeadlineExceeded, w1))"

section \<open>The coordinator\<close>

text \<open>
  The package-level variables. \<^verbatim>\<open>DefaultShutdownTimeout\<close> (line 16) is exported and
  assignable: the constructor reads whatever it holds when it is called. \<open>package_init\<close>
  is the package as its initialisers leave it.
\<close>

record Package =
  DefaultShutdownTimeout :: Duration

definition package_init :: Package where
  "package_init = \<lparr>DefaultShutdownTimeout = time_Second * 60\<rparr>"

definition NewGracefulServer :: "Package \<Rightarrow> Handler \<Rightarrow> Logger \<Rightarrow> GracefulServer" where
  "NewGracefulServer pkg handler lg =
     \<lparr>server = \<lparr>Handler = handler\<rparr>,
      listener = None,
      log = lg,
      URL = [],
      ShutdownTimeout = DefaultShutdownTimeout pkg\<rparr>"

text \<open>A method on \<^verbatim>\<open>*GracefulServer\<close> returns its error, the coordinator as the call
  leaves it, and the extended history. The \<^verbatim>\<open>go\<close> statement of Listen is recorded as
  an event; the task it starts is the function \<open>listenForShutdownSignal\<close> below, run on a
  history of its own, and no interleaving with the serve loop is modelled.\<close>

definition Bind :: "Env \<Rightarrow> string \<Rightarrow> GracefulServer \<Rightarrow> World
    \<Rightarrow> error option \<times> GracefulServer \<times> World" where
  "Bind env addr svr w =
     (let w1 = w @ [NetListen addr] in
      case net_Listen env w addr of
        Inl err \<Rightarrow> (Some err, svr, w1)
      | Inr l \<Rightarrow>
          (let svr1 = svr\<lparr>URL := ''http://'' @ Addr_String l\<rparr>;
               svr2 = svr1\<lparr>listener := Some l\<rparr>
           in (None, svr2, w1)))"

definition Listen :: "Env \<Rightarrow> GracefulServer \<Rightarrow> World
    \<Rightarrow> error option res \<times> GracefulServer \<times> World" where
  "Listen env svr w =
     (let w1 = w @ [GoListenForShutdownSignal];
          w2 = w1 @ [ServerServe (listener svr)]
      in (Server_Serve env w1 (listener svr), svr, w2))"

definition Close :: "Env \<Rightarrow> GracefulServer \<Rightarrow> World
    \<Rightarrow> error option \<times> GracefulServer \<times> World" where
  "Close env svr w =
     (let ctx = context_WithTimeout env w (ShutdownTimeout svr);
          w1 = w @ [Infof (log svr) ''Triggering shutdown, in at most %s ''
                      [ArgDurationString (ShutdownTimeout svr)]];
          (r, w2) = Server_Shutdown env ctx w1
      in (r, svr, w2 @ [ContextCancel]))"

text \<open>
  The signal-watch task. \<open>sigs\<close> are the signals the process receives, in order, once
  the channel is registered; the receive returns the first of them that was asked for.
  \<open>None\<close>: the task blocks for ever. The result carries the signals that follow the
  consumed one.
\<close>

definition listenForShutdownSignal :: "Env \<Rightarrow> GracefulServer \<Rightarrow> Signal list \<Rightarrow> World
    \<Rightarrow> (GracefulServer \<times> Signal list \<times> World) option" where
  "listenForShutdownSignal env svr sigs w =
     (let notify = [os_Interrupt, SIGTERM, SIGINT];
          w1 = w @ [SignalNotify notify]
      in case dropWhile (\<lambda>s. s \<notin> set notify) sigs of
           [] \<Rightarrow> None
         | sig # rest \<Rightarrow>
             (let w2 = w1 @ [ChanRecv sig];
                  w3 = w2 @ [Infof (log svr) ''Triggering shutdown from signal %s'' [ArgSignal sig]];
                  (shutErr, svr1, w4) = Close env svr w3;
                  (shutErr1, w5) =
                    (if shutErr = Some DeadlineExceeded
                     then (let w' = w4 @ [WithErrorWarnf (log svr1) DeadlineExceeded
                                            ''Forcing a shutdown after waiting %s''
                                            [ArgDurationString (ShutdownTimeout svr1)]]
                           in (Server_Close env w', w' @ [ServerClose]))
                     else (shutErr, w4));
                  w6 = (case shutErr1 of
                          None \<Rightarrow> w5
                        | Some e \<Rightarrow> w5 @ [WithErrorWarnf (log svr1) e ''Error while shutting down'' []])
              in Some (svr1, rest, w6)))"

definition ListenAndServe :: "Env \<Rightarrow> string \<Rightarrow> GracefulServer \<Rightarrow> World
    \<Rightarrow> error option res \<times> GracefulServer \<times> World" where
  "ListenAndServe env addr svr w =
     (if listener svr \<noteq> None
      then (Returns (Some (errors_New ''The listener has already started, don't call Bind first'')),
            svr, w)
      else case Bind env addr svr w of
             (Some err, svr1, w1) \<Rightarrow> (Returns (Some err), svr1, w1)
           | (None, svr1, w1) \<Rightarrow> Listen env svr1 w1)"

section \<open>Example runs\<close>

text \<open>
  A concrete environment for the examples: the clock stands at 0, only
  \<^verbatim>\<open>127.0.0.1:0\<close> can be bound, serving an unset listener panics, and the parameters
  fix how long the requests in flight still need and what closing the listeners gives.
\<close>

definition example_listener :: Listener where
  "example_listener = \<lparr>fd = 3, Addr_String = ''127.0.0.1:43210''\<rparr>"

definition example_env :: "int option \<Rightarrow> error option \<Rightarrow> Env" where
  "example_env work cerr =
     \<lparr>time_Now = (\<lambda>w. 0),
      net_Listen = (\<lambda>w a. if a = ''127.0.0.1:0'' then Inr example_listener
                           else Inl (OpError ''listen tcp: address already in use'')),
      Server_Serve = (\<lambda>w l. case l of None \<Rightarrow> Panics | Some _ \<Rightarrow> Returns (Some ErrServerClosed)),
      inflight = (\<lambda>w. work),
      lnerr = (\<lambda>w. cerr),
      Server_Close = (\<lambda>w. None)\<rparr>"

definition example_bound :: GracefulServer where
  "example_bound =
     (NewGracefulServer package_init 1 2)\<lparr>URL := ''http://127.0.0.1:8080'',
        listener := Some \<lparr>fd = 7, Addr_String = ''127.0.0.1:8080''\<rparr>\<rparr>"

definition time_Millisecond :: Duration where
  "time_Millisecond = 1000000"

text \<open>The history a first signal-watch task leaves on \<open>example_bound\<close> when SIGINT arrives
  and the server is idle.\<close>

definition example_first_run :: World where
  "example_first_run =
     [SignalNotify [os_Interrupt, SIGTERM, SIGINT],
      ChanRecv SIGINT,
      Infof 2 ''Triggering shutdown from signal %s'' [ArgSignal SIGINT],
      Infof 2 ''Triggering shutdown, in at most %s '' [ArgDurationString 60000000000],
      ServerShutdown \<lparr>deadline = 60000000000\<rparr>,
      ContextCancel]"

section \<open>Observations on histories\<close>

definition received :: "World \<Rightarrow> Signal list" where
  "received w = concat (map (\<lambda>e. case e of ChanRecv s \<Rightarrow> [s] | _ \<Rightarrow> []) w)"

definition shutdowns :: "World \<Rightarrow> Context list" where
  "shutdowns w = concat (map (\<lambda>e. case e of ServerShutdown c \<Rightarrow> [c] | _ \<Rightarrow> []) w)"

text \<open>What the signal-watch task appends once Close has returned \<open>shutErr\<close> on history
  \<open>w4\<close>: the two branches of lines 58 to 65, read off as one list.\<close>

definition after_Close :: "Env \<Rightarrow> GracefulServer \<Rightarrow> error option \<Rightarrow> World \<Rightarrow> event list" where
  "after_Close env svr shutErr w4 =
     (case shutErr of
        None \<Rightarrow> []
      | Some e \<Rightarrow>
          if e = DeadlineExceeded
          then [WithErrorWarnf (log svr) DeadlineExceeded ''Forcing a shutdown after waiting %s''
                  [ArgDurationString (ShutdownTimeout svr)],
                ServerClose]
               @ (case Server_Close env
                         (w4 @ [WithErrorWarnf (log svr) DeadlineExceeded
                                  ''Forcing a shutdown after waiting %s''
                                  [ArgDurationString (ShutdownTimeout svr)]]) of
                    None \<Rightarrow> []
                  | Some e' \<Rightarrow> [WithErrorWarnf (log svr) e' ''Error while shutting down'' []])
          else [WithErrorWarnf (log svr) e ''Error while shutting down'' []])"

section \<open>Auxiliary facts\<close>

lemma first_notified:
  assumes "\<forall>s\<in>set pre. s \<noteq> SIGINT \<and> s \<noteq> SIGTERM" and "sig = SIGINT \<or> sig = SIGTERM"
  shows "dropWhile (\<lambda>s. s \<notin> set [os_Interrupt, SIGTERM, SIGINT]) (pre @ sig # rest) = sig # rest"
proof -
  let ?P = "\<lambda>s. s \<notin> set [os_Interrupt, SIGTERM, SIGINT]"
  have skip: "\<And>s. s \<in> set pre \<Longrightarrow> ?P s"
    using assms(1) by (auto simp: os_Interrupt_def)
  have hit: "\<not> ?P sig"
    using assms(2) by (auto simp: os_Interrupt_def)
  have "dropWhile ?P (pre @ sig # rest) = dropWhile ?P (sig # rest)"
    using skip by (rule dropWhile_append2)
  also have "\<dots> = sig # rest"
    using hit by (simp only: dropWhile.simps if_False)
  finally show ?thesis .
qed

lemma none_notified:
  assumes "\<forall>s\<in>set sigs. s \<noteq> SIGINT \<and> s \<noteq> SIGTERM"
  shows "dropWhile (\<lambda>s. s \<notin> set [os_Interrupt, SIGTERM, SIGINT]) sigs = []"
  using assms by (auto simp: os_Interrupt_def)

lemma Close_unfold:
  "Close env svr w =
     (fst (Server_Shutdown env \<lparr>deadline = time_Now env w + sint (ShutdownTimeout svr)\<rparr>
             (w @ [Infof (log svr) ''Triggering shutdown, in at most %s ''
                     [ArgDurationString (ShutdownTimeout svr)]])),
      svr,
      w @ [Infof (log svr) ''Triggering shutdown, in at most %s ''
             [ArgDurationString (ShutdownTimeout svr)],
           ServerShutdown \<lparr>deadline = time_Now env w + sint (ShutdownTimeout svr)\<rparr>,
           ContextCancel])"
  by (simp add: Close_def Server_Shutdown_def context_WithTimeout_def Let_def
      split: option.split)

lemma watch_run:
  assumes "dropWhile (\<lambda>s. s \<notin> set [os_Interrupt, SIGTERM, SIGINT]) sigs = sig # rest"
    and "Close env svr
           (w @ [SignalNotify [os_Interrupt, SIGTERM, SIGINT], ChanRecv sig,
                 Infof (log svr) ''Triggering shutdown from signal %s'' [ArgSignal sig]])
         = (shutErr, svr1, w4)"
  shows "listenForShutdownSignal env svr sigs w =
           Some (svr1, rest, w4 @ after_Close env svr1 shutErr w4)"
  using assms
  by (auto simp: listenForShutdownSignal_def after_Close_def Let_def split: option.splits)

lemma watch_blocks:
  assumes "dropWhile (\<lambda>s. s \<notin> set [os_Interrupt, SIGTERM, SIGINT]) sigs = []"
  shows "listenForShutdownSignal env svr sigs w = None"
  unfolding listenForShutdownSignal_def Let_def
  by (simp only: assms list.case)

lemma received_append: "received (a @ b) = received a @ received b"
  by (simp add: received_def)

lemma shutdowns_append: "shutdowns (a @ b) = shutdowns a @ shutdowns b"
  by (simp add: shutdowns_def)

lemma received_after_Close: "received (after_Close env svr r w4) = []"
  by (cases r) (auto simp: after_Close_def received_def split: option.split)

lemma shutdowns_after_Close: "shutdowns (after_Close env svr r w4) = []"
  by (cases r) (auto simp: after_Close_def shutdowns_def split: option.split)

lemma ServerClose_after_Close: "count_list (after_Close env svr r w4) ServerClose \<le> 1"
  by (cases r) (simp_all add: after_Close_def split: option.split)

lemma SignalNotify_after_Close: "count_list (after_Close env svr r w4) (SignalNotify ns) = 0"
  by (cases r) (simp_all add: after_Close_def split: option.split)

lemma ServerClose_in_after_Close:
  "ServerClose \<in> set (after_Close env svr r w4) \<longleftrightarrow> r = Some DeadlineExceeded"
  by (auto simp: after_Close_def split: option.splits if_splits)

section \<open>The signal-watch task\<close>

text \<open>
  C1. In every run of the signal-watch task that receives a signal, the task calls Close
  after the receive. With \<open>shutErr\<close> what Close returned and \<open>w4\<close> the history at its
  return, the events \<open>evs\<close> that follow contain the hard close of the server exactly when
  \<open>shutErr\<close> is the sentinel DeadlineExceeded, and then they start with the warning that
  names the timeout and the hard close; for any other error they are one warning and
  nothing else; for nil they are empty.
\<close>

theorem listenForShutdownSignal_escalates_iff_DeadlineExceeded:
  assumes "sigs = pre @ sig # rest"
    and "\<forall>s\<in>set pre. s \<noteq> SIGINT \<and> s \<noteq> SIGTERM"
    and "sig = SIGINT \<or> sig = SIGTERM"
    and "Close env svr
           (w @ [SignalNotify [os_Interrupt, SIGTERM, SIGINT], ChanRecv sig,
                 Infof (log svr) ''Triggering shutdown from signal %s'' [ArgSignal sig]])
         = (shutErr, svr1, w4)"
  shows "\<exists>evs. listenForShutdownSignal env svr sigs w = Some (svr1, rest, w4 @ evs)
      \<and> (ServerClose \<in> set evs \<longleftrightarrow> shutErr = Some DeadlineExceeded)
      \<and> (shutErr = Some DeadlineExceeded \<longrightarrow>
            take 2 evs =
              [WithErrorWarnf (log svr) DeadlineExceeded ''Forcing a shutdown after waiting %s''
                 [ArgDurationString (ShutdownTimeout svr)],
               ServerClose])
      \<and> (\<forall>e. shutErr = Some e \<and> e \<noteq> DeadlineExceeded \<longrightarrow>
            evs = [WithErrorWarnf (log svr) e ''Error while shutting down'' []])
      \<and> (shutErr = None \<longrightarrow> evs = [])"
proof -
  have recv: "dropWhile (\<lambda>s. s \<notin> set [os_Interrupt, SIGTERM, SIGINT]) sigs = sig # rest"
    unfolding assms(1) by (rule first_notified [OF assms(2) assms(3)])
  have same: "svr1 = svr"
    using assms(4) by (simp add: Close_unfold)
  let ?evs = "after_Close env svr1 shutErr w4"
  have run: "listenForShutdownSignal env svr sigs w = Some (svr1, rest, w4 @ ?evs)"
    by (rule watch_run [OF recv assms(4)])
  have esc: "ServerClose \<in> set ?evs \<longleftrightarrow> shutErr = Some DeadlineExceeded"
    by (rule ServerClose_in_after_Close)
  have forced: "shutErr = Some DeadlineExceeded \<longrightarrow>
      take 2 ?evs =
        [WithErrorWarnf (log svr) DeadlineExceeded ''Forcing a shutdown after waiting %s''
           [ArgDurationString (ShutdownTimeout svr)],
         ServerClose]"
    by (simp add: after_Close_def same)
  have other: "\<forall>e. shutErr = Some e \<and> e \<noteq> DeadlineExceeded \<longrightarrow>
      ?evs = [WithErrorWarnf (log svr) e ''Error while shutting down'' []]"
    by (simp add: after_Close_def same)
  have nil: "shutErr = None \<longrightarrow> ?evs = []"
    by (simp add: after_Close_def)
  from run esc forced other nil show ?thesis by blast
qed

text \<open>
  A run on the signals 1, SIGTERM, SIGINT with requests that need 500ms and a timeout of
  100ms: Close gives DeadlineExceeded and the server is closed hard.
\<close>

theorem listenForShutdownSignal_escalates_witness:
  "Close (example_env (Some 500000000) None)
      (example_bound\<lparr>ShutdownTimeout := 100 * time_Millisecond\<rparr>)
      [SignalNotify [os_Interrupt, SIGTERM, SIGINT], ChanRecv SIGTERM,
       Infof 2 ''Triggering shutdown from signal %s'' [ArgSignal SIGTERM]]
   = (Some DeadlineExceeded, example_bound\<lparr>ShutdownTimeout := 100 * time_Millisecond\<rparr>,
      [SignalNotify [os_Interrupt, SIGTERM, SIGINT], ChanRecv SIGTERM,
       Infof 2 ''Triggering shutdown from signal %s'' [ArgSignal SIGTERM],
       Infof 2 ''Triggering shutdown, in at most %s '' [ArgDurationString (100 * time_Millisecond)],
       ServerShutdown \<lparr>deadline = 100000000\<rparr>, ContextCancel])
   \<and> (\<exists>evs. listenForShutdownSignal (example_env (Some 500000000) None)
              (example_bound\<lparr>ShutdownTimeout := 100 * time_Millisecond\<rparr>) [1, SIGTERM, SIGINT] []
            = Some (example_bound\<lparr>ShutdownTimeout := 100 * time_Millisecond\<rparr>, [SIGINT],
                [SignalNotify [os_Interrupt, SIGTERM, SIGINT], ChanRecv SIGTERM,
                 Infof 2 ''Triggering shutdown from signal %s'' [ArgSignal SIGTERM],
                 Infof 2 ''Triggering shutdown, in at most %s ''
                   [ArgDurationString (100 * time_Millisecond)],
                 ServerShutdown \<lparr>deadline = 100000000\<rparr>, ContextCancel] @ evs)
          \<and> ServerClose \<in> set evs)"
proof -
  let ?env = "example_env (Some 500000000) None"
  let ?svr = "example_bound\<lparr>ShutdownTimeout := 100 * time_Millisecond\<rparr>"
  let ?w4 = "[SignalNotify [os_Interrupt, SIGTERM, SIGINT], ChanRecv SIGTERM,
       Infof 2 ''Triggering shutdown from signal %s'' [ArgSignal SIGTERM],
       Infof 2 ''Triggering shutdown, in at most %s '' [ArgDurationString (100 * time_Millisecond)],
       ServerShutdown \<lparr>deadline = 100000000\<rparr>, ContextCancel]"
  have h1: "[1, SIGTERM, SIGINT] = [1] @ SIGTERM # [SIGINT]"
    by simp
  have h2: "\<forall>s\<in>set [1::nat]. s \<noteq> SIGINT \<and> s \<noteq> SIGTERM"
    by (simp add: SIGINT_def SIGTERM_def)
  have h3: "SIGTERM = SIGINT \<or> SIGTERM = SIGTERM"
    by simp
  have h4: "Close ?env ?svr
      ([] @ [SignalNotify [os_Interrupt, SIGTERM, SIGINT], ChanRecv SIGTERM,
       Infof (log ?svr) ''Triggering shutdown from signal %s'' [ArgSignal SIGTERM]])
     = (Some DeadlineExceeded, ?svr, ?w4)"
    by (simp add: Close_unfold Server_Shutdown_def example_env_def example_bound_def
        NewGracefulServer_def time_Millisecond_def)
  have lg: "log ?svr = 2"
    by (simp add: example_bound_def NewGracefulServer_def)
  from listenForShutdownSignal_escalates_iff_DeadlineExceeded [OF h1 h2 h3 h4]
  have "\<exists>evs. listenForShutdownSignal ?env ?svr [1, SIGTERM, SIGINT] [] = Some (?svr, [SIGINT], ?w4 @ evs)
      \<and> ServerClose \<in> set evs"
    by blast
  with h4 lg show ?thesis
    by simp
qed

text \<open>
  C7, as the code has it. Each signal-watch task consumes at most one signal. One run of
  the task blocks until the first interrupt or termination signal: on the signals before
  it alone the task never returns. It then receives that one signal, calls Shutdown once,
  closes the server hard at most once, and returns; the channel was registered once, the
  signals that follow are left where they are and change nothing of the run. Every call of
  Listen starts one such task, whatever was started before.
\<close>

theorem listenForShutdownSignal_single_shot:
  assumes "sigs = pre @ sig # rest"
    and "\<forall>s\<in>set pre. s \<noteq> SIGINT \<and> s \<noteq> SIGTERM"
    and "sig = SIGINT \<or> sig = SIGTERM"
  shows "\<exists>svr1 evs. listenForShutdownSignal env svr sigs w = Some (svr1, rest, w @ evs)
      \<and> listenForShutdownSignal env svr (pre @ [sig]) w = Some (svr1, [], w @ evs)
      \<and> received evs = [sig]
      \<and> length (shutdowns evs) = 1
      \<and> count_list evs ServerClose \<le> 1
      \<and> count_list evs (SignalNotify [os_Interrupt, SIGTERM, SIGINT]) = 1
      \<and> listenForShutdownSignal env svr pre w = None
      \<and> snd (snd (Listen env svr w)) = w @ [GoListenForShutdownSignal, ServerServe (listener svr)]"
proof -
  let ?head = "[SignalNotify [os_Interrupt, SIGTERM, SIGINT], ChanRecv sig,
                Infof (log svr) ''Triggering shutdown from signal %s'' [ArgSignal sig]]"
  let ?mid = "?head @
       [Infof (log svr) ''Triggering shutdown, in at most %s ''
          [ArgDurationString (ShutdownTimeout svr)],
        ServerShutdown \<lparr>deadline = time_Now env (w @ ?head) + sint (ShutdownTimeout svr)\<rparr>,
        ContextCancel]"
  obtain shutErr where cl: "Close env svr (w @ ?head) = (shutErr, svr, w @ ?mid)"
    by (simp add: Close_unfold)
  let ?tail = "after_Close env svr shutErr (w @ ?mid)"
  let ?evs = "?mid @ ?tail"
  have split: "(w @ ?mid) @ ?tail = w @ ?evs"
    by (simp only: append_assoc)
  have r1: "listenForShutdownSignal env svr sigs w = Some (svr, rest, w @ ?evs)"
    unfolding assms(1) split [symmetric]
    by (rule watch_run [OF first_notified [OF assms(2) assms(3)] cl])
  have r2: "listenForShutdownSignal env svr (pre @ [sig]) w = Some (svr, [], w @ ?evs)"
    unfolding split [symmetric]
    by (rule watch_run [OF first_notified [OF assms(2) assms(3)] cl])
  have "received ?mid = [sig]"
    by (simp add: received_def)
  then have rc: "received ?evs = [sig]"
    by (simp only: received_append received_after_Close append_Nil2)
  have "length (shutdowns ?mid) = 1"
    by (simp add: shutdowns_def)
  then have sh: "length (shutdowns ?evs) = 1"
    by (simp only: shutdowns_append shutdowns_after_Close append_Nil2)
  have "count_list ?mid ServerClose = 0"
    by simp
  then have sc: "count_list ?evs ServerClose \<le> 1"
    using ServerClose_after_Close [of env svr shutErr "w @ ?mid"]
    by (simp only: count_list_append add_0)
  have "count_list ?mid (SignalNotify [os_Interrupt, SIGTERM, SIGINT]) = 1"
    by simp
  then have sn: "count_list ?evs (SignalNotify [os_Interrupt, SIGTERM, SIGINT]) = 1"
    by (simp only: count_list_append SignalNotify_after_Close add_0_right)
  have bl: "listenForShutdownSignal env svr pre w = None"
    by (rule watch_blocks [OF none_notified [OF assms(2)]])
  have go: "snd (snd (Listen env svr w)) = w @ [GoListenForShutdownSignal, ServerServe (listener svr)]"
    by (simp add: Listen_def)
  from r1 r2 rc sh sc sn bl go show ?thesis by blast
qed

text \<open>
  A run on the signals 1, SIGINT, SIGTERM, SIGINT: SIGINT is served, SIGTERM and the
  second SIGINT are not.
\<close>

theorem listenForShutdownSignal_single_shot_witness:
  "\<exists>svr1 evs.
      listenForShutdownSignal (example_env (Some 0) None) example_bound [1, SIGINT, SIGTERM, SIGINT] []
        = Some (svr1, [SIGTERM, SIGINT], evs)
    \<and> listenForShutdownSignal (example_env (Some 0) None) example_bound [1, SIGINT] []
        = Some (svr1, [], evs)
    \<and> received evs = [SIGINT]
    \<and> length (shutdowns evs) = 1
    \<and> count_list evs ServerClose \<le> 1
    \<and> count_list evs (SignalNotify [os_Interrupt, SIGTERM, SIGINT]) = 1
    \<and> listenForShutdownSignal (example_env (Some 0) None) example_bound [1] [] = None
    \<and> snd (snd (Listen (example_env (Some 0) None) example_bound [])) =
        [GoListenForShutdownSignal, ServerServe (listener example_bound)]"
proof -
  have h1: "[1, SIGINT, SIGTERM, SIGINT] = [1] @ SIGINT # [SIGTERM, SIGINT]"
    by simp
  have h2: "\<forall>s\<in>set [1::nat]. s \<noteq> SIGINT \<and> s \<noteq> SIGTERM"
    by (simp add: SIGINT_def SIGTERM_def)
  have h3: "SIGINT = SIGINT \<or> SIGINT = SIGTERM"
    by simp
  from listenForShutdownSignal_single_shot [OF h1 h2 h3, of "example_env (Some 0) None" example_bound "[]"]
  show ?thesis
    by simp
qed

text \<open>
  C7, as stated, fails over the lifetime of a coordinator: two calls of Listen on the
  same coordinator start two tasks; the first serves SIGINT and leaves SIGTERM, and the
  second, started on the history the first left, serves SIGTERM, so that two signals are
  received and Shutdown is called twice.
\<close>

theorem second_Listen_serves_second_signal:
  "count_list
     (snd (snd (Listen (example_env (Some 0) None) example_bound
        (snd (snd (Listen (example_env (Some 0) None) example_bound []))))))
     GoListenForShutdownSignal = 2
   \<and> listenForShutdownSignal (example_env (Some 0) None) example_bound [SIGINT, SIGTERM] [] =
       Some (example_bound, [SIGTERM], example_first_run)
   \<and> map_option (\<lambda>(svr1, rest, h). (svr1, rest, received h, length (shutdowns h)))
        (listenForShutdownSignal (example_env (Some 0) None) example_bound [SIGTERM]
           example_first_run) =
       Some (example_bound, [], [SIGINT, SIGTERM], 2)"
proof -
  let ?env = "example_env (Some 0) None"
  have two: "count_list (snd (snd (Listen ?env example_bound (snd (snd (Listen ?env example_bound []))))))
      GoListenForShutdownSignal = 2"
    by (simp add: Listen_def)
  have lg: "log example_bound = 2"
    and tm: "ShutdownTimeout example_bound = 60000000000"
    by (simp_all add: example_bound_def NewGracefulServer_def package_init_def time_Second_def)
  have idle: "\<And>ctx w. Server_Shutdown ?env ctx w = (None, w @ [ServerShutdown ctx])"
    by (simp add: Server_Shutdown_def example_env_def)
  have now: "\<And>w. time_Now ?env w = 0"
    by (simp add: example_env_def)
  have first: "listenForShutdownSignal ?env example_bound [SIGINT, SIGTERM] [] =
      Some (example_bound, [SIGTERM], example_first_run)"
    by (simp add: listenForShutdownSignal_def Close_def context_WithTimeout_def idle now lg tm
        example_first_run_def os_Interrupt_def SIGINT_def SIGTERM_def)
  have second: "map_option (\<lambda>(svr1, rest, h). (svr1, rest, received h, length (shutdowns h)))
        (listenForShutdownSignal ?env example_bound [SIGTERM] example_first_run) =
       Some (example_bound, [], [SIGINT, SIGTERM], 2)"
    by (simp add: listenForShutdownSignal_def Close_def context_WithTimeout_def idle now lg tm
        example_first_run_def os_Interrupt_def SIGINT_def SIGTERM_def received_def shutdowns_def
        Let_def)
  from two first second show ?thesis by simp
qed

section \<open>Listen and ListenAndServe\<close>

text \<open>
  C2, as the code has it. Listen does not look at the listener: on a coordinator whose
  listener is unset it starts the signal-watch task, calls the server's Serve with the
  unset listener, and its outcome is what Serve does with it. No error of its own is
  returned.
\<close>

theorem Listen_serves_unset_listener:
  "listener svr = None \<Longrightarrow>
     Listen env svr w =
       (Server_Serve env (w @ [GoListenForShutdownSignal]) None, svr,
        w @ [GoListenForShutdownSignal, ServerServe None])"
  by (simp add: Listen_def)

text \<open>
  On a fresh coordinator, after a failed bind, Listen reaches Serve.
\<close>

theorem Listen_serves_unset_listener_witness:
  "listener (NewGracefulServer package_init 5 6) = None
   \<and> Listen (example_env None None) (NewGracefulServer package_init 5 6) [NetListen ''10.0.0.1:80''] =
       (Panics, NewGracefulServer package_init 5 6,
        [NetListen ''10.0.0.1:80'', GoListenForShutdownSignal, ServerServe None])"
proof -
  have h: "listener (NewGracefulServer package_init 5 6) = None"
    by (simp add: NewGracefulServer_def)
  from Listen_serves_unset_listener [OF h, of "example_env None None" "[NetListen ''10.0.0.1:80'']"]
  have "Listen (example_env None None) (NewGracefulServer package_init 5 6) [NetListen ''10.0.0.1:80''] =
       (Panics, NewGracefulServer package_init 5 6,
        [NetListen ''10.0.0.1:80'', GoListenForShutdownSignal, ServerServe None])"
    by (simp add: example_env_def)
  with h show ?thesis by simp
qed

text \<open>
  C2, as stated, fails on a coordinator fresh from the constructor: Listen starts the
  task and enters Serve with the unset listener, where the server panics.
\<close>

theorem Listen_unbound_enters_Serve:
  "listener (NewGracefulServer package_init 1 2) = None
   \<and> Listen (example_env (Some 0) None) (NewGracefulServer package_init 1 2) [] =
       (Panics, NewGracefulServer package_init 1 2, [GoListenForShutdownSignal, ServerServe None])"
  by (simp add: Listen_def NewGracefulServer_def example_env_def)

text \<open>
  C3. When the listener is already set, ListenAndServe returns the error built at line
  71 with the coordinator and the history as they were: no field is written and nothing
  outside the package is called. Otherwise it returns the error of Bind when Bind fails,
  and what Listen returns on the coordinator Bind left when Bind succeeds.
\<close>

theorem ListenAndServe_guard:
  "(listener svr \<noteq> None \<longrightarrow>
      ListenAndServe env addr svr w =
        (Returns (Some (errors_New ''The listener has already started, don't call Bind first'')),
         svr, w))
   \<and> (listener svr = None \<longrightarrow>
        (\<forall>err. fst (Bind env addr svr w) = Some err \<longrightarrow>
           ListenAndServe env addr svr w = (Returns (Some err), snd (Bind env addr svr w)))
      \<and> (fst (Bind env addr svr w) = None \<longrightarrow>
           ListenAndServe env addr svr w =
             Listen env (fst (snd (Bind env addr svr w))) (snd (snd (Bind env addr svr w)))))"
  by (auto simp: ListenAndServe_def split: prod.splits option.splits)

text \<open>
  The three paths: a bound coordinator, an address that cannot be bound, and a bind
  followed by the serve loop.
\<close>

theorem ListenAndServe_guard_witness:
  "ListenAndServe (example_env (Some 0) None) ''127.0.0.1:0'' example_bound [] =
     (Returns (Some (errors_New ''The listener has already started, don't call Bind first'')),
      example_bound, [])
   \<and> ListenAndServe (example_env (Some 0) None) ''10.0.0.1:80'' (NewGracefulServer package_init 1 2) [] =
       (Returns (Some (OpError ''listen tcp: address already in use'')),
        NewGracefulServer package_init 1 2, [NetListen ''10.0.0.1:80''])
   \<and> ListenAndServe (example_env (Some 0) None) ''127.0.0.1:0'' (NewGracefulServer package_init 1 2) [] =
       (Returns (Some ErrServerClosed),
        (NewGracefulServer package_init 1 2)\<lparr>URL := ''http://127.0.0.1:43210'', listener := Some example_listener\<rparr>,
        [NetListen ''127.0.0.1:0'', GoListenForShutdownSignal, ServerServe (Some example_listener)])"
proof -
  let ?env = "example_env (Some 0) None"
  have b: "listener example_bound \<noteq> None"
    by (simp add: example_bound_def)
  have u: "listener (NewGracefulServer package_init 1 2) = None"
    by (simp add: NewGracefulServer_def)
  have f: "Bind ?env ''10.0.0.1:80'' (NewGracefulServer package_init 1 2) [] =
      (Some (OpError ''listen tcp: address already in use''), NewGracefulServer package_init 1 2,
       [NetListen ''10.0.0.1:80''])"
    by (simp add: Bind_def example_env_def)
  have s: "Bind ?env ''127.0.0.1:0'' (NewGracefulServer package_init 1 2) [] =
      (None,
       (NewGracefulServer package_init 1 2)\<lparr>URL := ''http://127.0.0.1:43210'', listener := Some example_listener\<rparr>,
       [NetListen ''127.0.0.1:0''])"
    by (simp add: Bind_def example_env_def example_listener_def)
  have l: "Listen ?env
       ((NewGracefulServer package_init 1 2)\<lparr>URL := ''http://127.0.0.1:43210'', listener := Some example_listener\<rparr>)
       [NetListen ''127.0.0.1:0''] =
      (Returns (Some ErrServerClosed),
        (NewGracefulServer package_init 1 2)\<lparr>URL := ''http://127.0.0.1:43210'', listener := Some example_listener\<rparr>,
        [NetListen ''127.0.0.1:0'', GoListenForShutdownSignal, ServerServe (Some example_listener)])"
    by (simp add: Listen_def example_env_def)
  from ListenAndServe_guard [of example_bound ?env "''127.0.0.1:0''" "[]"] b
  have 1: "ListenAndServe ?env ''127.0.0.1:0'' example_bound [] =
     (Returns (Some (errors_New ''The listener has already started, don't call Bind first'')),
      example_bound, [])"
    by blast
  from ListenAndServe_guard [of "NewGracefulServer package_init 1 2" ?env "''10.0.0.1:80''" "[]"] u f
  have 2: "ListenAndServe ?env ''10.0.0.1:80'' (NewGracefulServer package_init 1 2) [] =
       (Returns (Some (OpError ''listen tcp: address already in use'')),
        NewGracefulServer package_init 1 2, [NetListen ''10.0.0.1:80''])"
    by simp
  from ListenAndServe_guard [of "NewGracefulServer package_init 1 2" ?env "''127.0.0.1:0''" "[]"] u s l
  have 3: "ListenAndServe ?env ''127.0.0.1:0'' (NewGracefulServer package_init 1 2) [] =
       (Returns (Some ErrServerClosed),
        (NewGracefulServer package_init 1 2)\<lparr>URL := ''http://127.0.0.1:43210'', listener := Some example_listener\<rparr>,
        [NetListen ''127.0.0.1:0'', GoListenForShutdownSignal, ServerServe (Some example_listener)])"
    by simp
  from 1 2 3 show ?thesis by simp
qed

section \<open>Close\<close>

text \<open>
  C4. The deadline of Close is the time of the call plus ShutdownTimeout. When that
  deadline elapses with requests still in flight, Close returns DeadlineExceeded; when
  the drain completes by the deadline and closing the listeners gave no error, it returns
  nil; when closing the listeners gave an error, that error is returned as it is. The three
  cases are exclusive and cover every call.
\<close>

theorem Close_result_trichotomy:
  "let w1 = w @ [Infof (log svr) ''Triggering shutdown, in at most %s ''
                   [ArgDurationString (ShutdownTimeout svr)]];
       dl = time_Now env w + sint (ShutdownTimeout svr);
       outstanding = (case inflight env w1 of
                        None \<Rightarrow> True
                      | Some d \<Rightarrow> max 0 (dl - time_Now env w1) < d);
       r = fst (Close env svr w)
   in (outstanding \<longrightarrow> r = Some DeadlineExceeded)
    \<and> (\<not> outstanding \<and> lnerr env w1 = None \<longrightarrow> r = None)
    \<and> (\<forall>e. \<not> outstanding \<and> lnerr env w1 = Some e \<longrightarrow> r = Some e)"
  by (auto simp: Close_unfold Server_Shutdown_def Let_def split: option.splits)

text \<open>
  Requests of 500ms against 100ms, requests that never end, requests of 200ms against
  500ms, and an idle server whose listener fails to close.
\<close>

theorem Close_result_trichotomy_witness:
  "fst (Close (example_env (Some 500000000) None)
         (example_bound\<lparr>ShutdownTimeout := 100 * time_Millisecond\<rparr>) []) = Some DeadlineExceeded
   \<and> fst (Close (example_env None None) example_bound []) = Some DeadlineExceeded
   \<and> fst (Close (example_env (Some 200000000) None)
         (example_bound\<lparr>ShutdownTimeout := 500 * time_Millisecond\<rparr>) []) = None
   \<and> fst (Close (example_env (Some 0) (Some (OpError ''close tcp'')))
         (example_bound\<lparr>ShutdownTimeout := 0\<rparr>) []) = Some (OpError ''close tcp'')"
  using
    Close_result_trichotomy [of "[]" "example_bound\<lparr>ShutdownTimeout := 100 * time_Millisecond\<rparr>"
      "example_env (Some 500000000) None"]
    Close_result_trichotomy [of "[]" example_bound "example_env None None"]
    Close_result_trichotomy [of "[]" "example_bound\<lparr>ShutdownTimeout := 500 * time_Millisecond\<rparr>"
      "example_env (Some 200000000) None"]
    Close_result_trichotomy [of "[]" "example_bound\<lparr>ShutdownTimeout := 0\<rparr>"
      "example_env (Some 0) (Some (OpError ''close tcp''))"]
  by (simp add: Let_def example_env_def time_Millisecond_def)

text \<open>
  C10. Close writes no field of the coordinator: whatever it returns, the coordinator
  after the call is the one before it, and so are its listener, URL, ShutdownTimeout and
  log fields.
\<close>

theorem Close_leaves_coordinator:
  "fst (snd (Close env svr w)) = svr
   \<and> listener (fst (snd (Close env svr w))) = listener svr
   \<and> URL (fst (snd (Close env svr w))) = URL svr
   \<and> ShutdownTimeout (fst (snd (Close env svr w))) = ShutdownTimeout svr
   \<and> log (fst (snd (Close env svr w))) = log svr"
  by (simp add: Close_unfold)

text \<open>
  A Close that runs into its deadline leaves the bound coordinator as it was.
\<close>

theorem Close_leaves_coordinator_witness:
  "fst (snd (Close (example_env None None) example_bound [])) = example_bound
   \<and> fst (Close (example_env None None) example_bound []) = Some DeadlineExceeded"
  using Close_leaves_coordinator [of "example_env None None" example_bound "[]"]
  by (simp add: Close_unfold Server_Shutdown_def example_env_def)

section \<open>Bind\<close>

text \<open>
  C5. When net.Listen fails, Bind returns its error and the coordinator is the one
  before the call: neither URL nor listener is written.
\<close>

theorem Bind_failure_leaves_coordinator:
  "net_Listen env w addr = Inl err \<Longrightarrow>
     Bind env addr svr w = (Some err, svr, w @ [NetListen addr])"
  by (simp add: Bind_def)

text \<open>
  An address that is in use, on a coordinator that is already bound.
\<close>

theorem Bind_failure_leaves_coordinator_witness:
  "net_Listen (example_env (Some 0) None) [] ''10.0.0.1:80'' =
     Inl (OpError ''listen tcp: address already in use'')
   \<and> Bind (example_env (Some 0) None) ''10.0.0.1:80'' example_bound [] =
       (Some (OpError ''listen tcp: address already in use''), example_bound,
        [NetListen ''10.0.0.1:80''])"
proof -
  have h: "net_Listen (example_env (Some 0) None) [] ''10.0.0.1:80'' =
     Inl (OpError ''listen tcp: address already in use'')"
    by (simp add: example_env_def)
  from Bind_failure_leaves_coordinator [OF h, of example_bound] h
  show ?thesis by simp
qed

text \<open>
  C6. When net.Listen succeeds with listener \<open>l\<close>, Bind returns nil, stores \<open>l\<close>, and
  sets URL to \<open>http://\<close> followed by the local address of \<open>l\<close>: what follows the scheme
  in URL is the address the listener is bound to.
\<close>

theorem Bind_success_sets_URL:
  assumes "net_Listen env w addr = Inr l"
  shows "fst (Bind env addr svr w) = None
    \<and> listener (fst (snd (Bind env addr svr w))) = Some l
    \<and> URL (fst (snd (Bind env addr svr w))) = ''http://'' @ Addr_String l
    \<and> drop (length ''http://'') (URL (fst (snd (Bind env addr svr w)))) = Addr_String l"
  using assms by (simp add: Bind_def)

text \<open>
  Binding port 0 of the loopback address gives the URL of the port that was assigned.
\<close>

theorem Bind_success_sets_URL_witness:
  "net_Listen (example_env (Some 0) None) [] ''127.0.0.1:0'' = Inr example_listener
   \<and> fst (Bind (example_env (Some 0) None) ''127.0.0.1:0'' (NewGracefulServer package_init 1 2) []) = None
   \<and> listener (fst (snd (Bind (example_env (Some 0) None) ''127.0.0.1:0'' (NewGracefulServer package_init 1 2) [])))
       = Some example_listener
   \<and> URL (fst (snd (Bind (example_env (Some 0) None) ''127.0.0.1:0'' (NewGracefulServer package_init 1 2) [])))
       = ''http://127.0.0.1:43210''"
proof -
  have h: "net_Listen (example_env (Some 0) None) [] ''127.0.0.1:0'' = Inr example_listener"
    by (simp add: example_env_def)
  from Bind_success_sets_URL [OF h, of "NewGracefulServer package_init 1 2"] h
  show ?thesis by (simp add: example_listener_def)
qed

text \<open>
  C9. Bind has no guard of its own: on a coordinator whose listener is already set, a
  bind that succeeds returns nil and overwrites URL and listener; its only call outside the
  package is net.Listen, so the listener held before is dropped without being closed. On
  the same coordinator ListenAndServe refuses with the error of line 71.
\<close>

theorem Bind_overwrites_bound_listener:
  assumes "listener svr = Some l0" and "net_Listen env w addr = Inr l"
  shows "Bind env addr svr w =
      (None, svr\<lparr>URL := ''http://'' @ Addr_String l, listener := Some l\<rparr>, w @ [NetListen addr])
    \<and> fst (ListenAndServe env addr svr w) =
        Returns (Some (errors_New ''The listener has already started, don't call Bind first''))"
  using assms by (simp add: Bind_def ListenAndServe_def)

text \<open>
  A coordinator bound to port 8080 is bound again.
\<close>

theorem Bind_overwrites_bound_listener_witness:
  "listener example_bound = Some \<lparr>fd = 7, Addr_String = ''127.0.0.1:8080''\<rparr>
   \<and> Bind (example_env (Some 0) None) ''127.0.0.1:0'' example_bound [] =
      (None,
       example_bound\<lparr>URL := ''http://127.0.0.1:43210'', listener := Some example_listener\<rparr>,
       [NetListen ''127.0.0.1:0''])
   \<and> fst (ListenAndServe (example_env (Some 0) None) ''127.0.0.1:0'' example_bound []) =
        Returns (Some (errors_New ''The listener has already started, don't call Bind first''))"
proof -
  have h1: "listener example_bound = Some \<lparr>fd = 7, Addr_String = ''127.0.0.1:8080''\<rparr>"
    by (simp add: example_bound_def)
  have h2: "net_Listen (example_env (Some 0) None) [] ''127.0.0.1:0'' = Inr example_listener"
    by (simp add: example_env_def)
  from Bind_overwrites_bound_listener [OF h1 h2] h1
  show ?thesis by (simp add: example_listener_def)
qed

section \<open>Construction\<close>

text \<open>
  C8, as the code has it. A coordinator fresh from NewGracefulServer has ShutdownTimeout
  equal to what the package variable DefaultShutdownTimeout holds at that moment, which is
  60 seconds as long as the variable has not been assigned, and it has no listener.
  Whatever value the field holds when Close is called is the one printed and the one added
  to the clock to give the deadline handed to Shutdown.
\<close>

theorem NewGracefulServer_reads_DefaultShutdownTimeout:
  "ShutdownTimeout (NewGracefulServer pkg handler lg) = DefaultShutdownTimeout pkg
   \<and> sint (DefaultShutdownTimeout package_init) = 60 * 1000000000
   \<and> listener (NewGracefulServer pkg handler lg) = None
   \<and> snd (snd (Close env (svr\<lparr>ShutdownTimeout := d\<rparr>) w)) =
       w @ [Infof (log svr) ''Triggering shutdown, in at most %s '' [ArgDurationString d],
            ServerShutdown \<lparr>deadline = time_Now env w + sint d\<rparr>,
            ContextCancel]"
  by (simp add: NewGracefulServer_def package_init_def time_Second_def Close_unfold)

text \<open>
  The package as initialised, and a Close after the timeout was set to 50ms.
\<close>

theorem NewGracefulServer_reads_DefaultShutdownTimeout_witness:
  "ShutdownTimeout (NewGracefulServer package_init 1 2) = 60000000000
   \<and> listener (NewGracefulServer package_init 1 2) = None
   \<and> snd (snd (Close (example_env (Some 0) None)
        ((NewGracefulServer package_init 1 2)\<lparr>ShutdownTimeout := 50 * time_Millisecond\<rparr>) [])) =
       [Infof 2 ''Triggering shutdown, in at most %s '' [ArgDurationString 50000000],
        ServerShutdown \<lparr>deadline = 50000000\<rparr>,
        ContextCancel]"
  using NewGracefulServer_reads_DefaultShutdownTimeout [where pkg = package_init
      and handler = 1 and lg = 2
      and env = "example_env (Some 0) None" and svr = "NewGracefulServer package_init 1 2"
      and d = "50 * time_Millisecond" and w = "[]"]
  by (simp add: example_env_def time_Millisecond_def package_init_def time_Second_def
      NewGracefulServer_def)

text \<open>
  C8, as stated, fails once the program has assigned the package variable: after
  \<^verbatim>\<open>DefaultShutdownTimeout = 5 * time.Second\<close> a new coordinator has a timeout of 5
  seconds, not 60.
\<close>

theorem NewGracefulServer_after_assignment:
  "sint (ShutdownTimeout
      (NewGracefulServer (package_init\<lparr>DefaultShutdownTimeout := 5 * time_Second\<rparr>) 1 2))
     = 5 * 1000000000
   \<and> sint (ShutdownTimeout
      (NewGracefulServer (package_init\<lparr>DefaultShutdownTimeout := 5 * time_Second\<rparr>) 1 2))
     \<noteq> 60 * 1000000000"
  by (simp add: NewGracefulServer_def time_Second_def)

end
